theory Spec2Isabelle
  imports Complex_Main "HOL-Library.Log_Nat" "HOL-Library.Multiset"
begin

section \<open>JavaScript numbers\<close>

text \<open>
  Every \<^verbatim>\<open>number\<close> of the cart code is an IEEE-754 binary64 value. A finite double is a
  rational, so a number is modelled as a \<^typ>\<open>rat\<close>, and every arithmetic operator of the
  source (\<^verbatim>\<open>+\<close>, \<^verbatim>\<open>-\<close>, \<^verbatim>\<open>*\<close>, \<^verbatim>\<open>/\<close>) computes the exact result and rounds it to the
  nearest double, ties to even (53 significant bits, gradual underflow below \<open>2^-1022\<close>).
  A decimal literal of the source, such as \<^verbatim>\<open>0.08\<close>, denotes the double nearest to it.
  Comparisons and \<^verbatim>\<open>Math.min\<close> are exact. \<^verbatim>\<open>NaN\<close>, the infinities (overflow beyond
  \<open>2^1024\<close>) and the sign of zero are outside the model.
\<close>

type_synonym number = rat

definition pow2 :: "int \<Rightarrow> rat" where
  "pow2 e = (if 0 \<le> e then 2 ^ nat e else 1 / 2 ^ nat (- e))"

text \<open>The binary exponent of a positive rational \<open>a\<close>: the \<open>e\<close> with \<open>2^e \<le> a < 2^(e+1)\<close>.\<close>

definition binade :: "rat \<Rightarrow> int" where
  "binade a = (case quotient_of a of (n, d) \<Rightarrow>
     (let e0 = bitlen n - bitlen d in if pow2 e0 \<le> a then e0 else e0 - 1))"

definition round_half_even :: "rat \<Rightarrow> int" where
  "round_half_even m = (let f = \<lfloor>m\<rfloor>; r = m - of_int f in
     if r < 1 / 2 then f else if 1 / 2 < r then f + 1 else if even f then f else f + 1)"

definition to_double :: "rat \<Rightarrow> number" where
  "to_double x = (if x = 0 then 0 else
     (let ulp = pow2 (max (binade \<bar>x\<bar>) (- 1022) - 52)
      in sgn x * of_int (round_half_even (\<bar>x\<bar> / ulp)) * ulp))"

definition fadd :: "number \<Rightarrow> number \<Rightarrow> number" where
  "fadd x y = to_double (x + y)"

definition fsub :: "number \<Rightarrow> number \<Rightarrow> number" where
  "fsub x y = to_double (x - y)"

definition fmul :: "number \<Rightarrow> number \<Rightarrow> number" where
  "fmul x y = to_double (x * y)"

text \<open>Division is only ever by the constant 100 in the cart code; \<^verbatim>\<open>x / 0\<close> is outside the model.\<close>

definition fdiv :: "number \<Rightarrow> number \<Rightarrow> number" where
  "fdiv x y = to_double (x / y)"

text \<open>
  \<^verbatim>\<open>a || b\<close> on numbers, where \<open>a\<close> may be \<^verbatim>\<open>undefined\<close> (an optional chain that found
  nothing): \<open>b\<close> is taken when \<open>a\<close> is \<^verbatim>\<open>undefined\<close> or \<open>0\<close>.
\<close>

fun js_or :: "number option \<Rightarrow> number \<Rightarrow> number" where
  "js_or None b = b"
| "js_or (Some a) b = (if a = 0 then b else a)"

section \<open>Data model (types/Cart.ts, types/Product.ts)\<close>

text \<open>Of \<^verbatim>\<open>Product\<close> only the fields the cart reads are kept.\<close>

record ProductShipping =
  weight :: number

record Product =
  product_id :: string
  product_name :: string
  product_shipping :: "ProductShipping option"

record Variant =
  v_id :: string
  v_name :: string
  v_sku :: string
  v_attributes :: "(string \<times> string) list"
  v_price :: number

record CartItem =
  item_id :: string
  productId :: string
  item_product :: Product
  variant :: "Variant option"
  quantity :: number
  price :: number
  total :: number

record CartSummary =
  subtotal :: number
  taxAmount :: number
  shippingAmount :: number
  discountAmount :: number
  summary_total :: number
  itemCount :: number
  summary_weight :: number

datatype DiscountType = percentage | fixed_amount | free_shipping

record CartDiscount =
  code :: string
  discount_type :: DiscountType
  discount_value :: number
  description :: string
  appliedAt :: "string option"

record CartShipping =
  shipping_method :: string
  cost :: number
  estimatedDays :: number
  carrier :: "string option"

record CartState =
  items :: "CartItem list"
  summary :: CartSummary
  discounts :: "CartDiscount list"
  shipping :: "CartShipping option"
  isInitialized :: bool
  isLoading :: bool
  error :: "string option"

definition initialState :: CartState where
  "initialState =
     \<lparr>items = [],
      summary = \<lparr>subtotal = 0, taxAmount = 0, shippingAmount = 0, discountAmount = 0,
                 summary_total = 0, itemCount = 0, summary_weight = 0\<rparr>,
      discounts = [], shipping = None,
      isInitialized = False, isLoading = False, error = None\<rparr>"

section \<open>The pricing calculator (calculateCartSummary)\<close>

text \<open>
  The body of \<^verbatim>\<open>discounts.forEach\<close>: the two mutable locals \<^verbatim>\<open>discountAmount\<close> and
  \<^verbatim>\<open>shippingAmount\<close> are the state that the loop threads through.
\<close>

definition discount_step :: "number \<Rightarrow> number \<times> number \<Rightarrow> CartDiscount \<Rightarrow> number \<times> number" where
  "discount_step sub acc discount =
     (case acc of (dAmount, sAmount) \<Rightarrow>
       (case discount_type discount of
          percentage \<Rightarrow> (fadd dAmount (fdiv (fmul sub (discount_value discount)) 100), sAmount)
        | fixed_amount \<Rightarrow> (fadd dAmount (min (discount_value discount) sub), sAmount)
        | free_shipping \<Rightarrow> (dAmount, 0)))"

definition item_weight :: "CartItem \<Rightarrow> number" where
  "item_weight item = js_or (map_option weight (product_shipping (item_product item))) 0"

definition calculateCartSummary ::
  "CartItem list \<Rightarrow> CartDiscount list \<Rightarrow> CartShipping option \<Rightarrow> CartSummary" where
  "calculateCartSummary its ds sh =
     (let sub = foldl (\<lambda>sum item. fadd sum (total item)) 0 its;
          cnt = foldl (\<lambda>sum item. fadd sum (quantity item)) 0 its;
          wgt = foldl (\<lambda>sum item. fadd sum (fmul (item_weight item) (quantity item))) 0 its;
          acc = foldl (discount_step sub) (0, js_or (map_option cost sh) 0) ds;
          taxRate = to_double (2 / 25);
          taxableAmount = fsub sub (fst acc);
          tax = fmul taxableAmount taxRate;
          tot = fadd (fadd taxableAmount tax) (snd acc)
      in \<lparr>subtotal = sub, taxAmount = tax, shippingAmount = snd acc, discountAmount = fst acc,
          summary_total = tot, itemCount = cnt, summary_weight = wgt\<rparr>)"

section \<open>The cart state store (cartReducer and the provider's operations)\<close>

datatype CartAction =
    INITIALIZE_CART CartState
  | SET_LOADING bool
  | SET_ERROR "string option"
  | ADD_ITEM CartItem
  | REMOVE_ITEM string
  | UPDATE_QUANTITY string number
  | CLEAR_CART
  | APPLY_DISCOUNT CartDiscount
  | REMOVE_DISCOUNT string
  | SET_SHIPPING CartShipping
  | CALCULATE_SUMMARY

text \<open>\<^verbatim>\<open>Array.prototype.findIndex\<close>: the first index whose element satisfies \<open>P\<close>, or \<open>-1\<close>.\<close>

fun findIndex :: "('a \<Rightarrow> bool) \<Rightarrow> 'a list \<Rightarrow> int" where
  "findIndex P [] = - 1"
| "findIndex P (x # xs) =
     (if P x then 0 else (let i = findIndex P xs in if i < 0 then - 1 else i + 1))"

text \<open>\<^verbatim>\<open>item.variant?.id\<close>: \<^verbatim>\<open>undefined\<close> when the item has no variant.\<close>

definition variant_id :: "CartItem \<Rightarrow> string option" where
  "variant_id item = map_option v_id (variant item)"

text \<open>\<^verbatim>\<open>item.variant?.price\<close>.\<close>

definition variant_price :: "CartItem \<Rightarrow> number option" where
  "variant_price item = map_option v_price (variant item)"

definition same_line :: "CartItem \<Rightarrow> CartItem \<Rightarrow> bool" where
  "same_line payload item \<longleftrightarrow>
     productId item = productId payload \<and> variant_id item = variant_id payload"

definition merge_item :: "CartItem \<Rightarrow> CartItem \<Rightarrow> CartItem" where
  "merge_item payload item =
     item\<lparr>quantity := fadd (quantity item) (quantity payload),
          total := fmul (fadd (quantity item) (quantity payload))
                        (js_or (variant_price payload) (price item))\<rparr>"

definition set_quantity :: "number \<Rightarrow> CartItem \<Rightarrow> CartItem" where
  "set_quantity q item =
     item\<lparr>quantity := q, total := fmul q (js_or (variant_price item) (price item))\<rparr>"

fun cartReducer :: "CartState \<Rightarrow> CartAction \<Rightarrow> CartState" where
  "cartReducer state (INITIALIZE_CART payload) = payload\<lparr>isInitialized := True\<rparr>"
| "cartReducer state (SET_LOADING payload) = state\<lparr>isLoading := payload\<rparr>"
| "cartReducer state (SET_ERROR payload) = state\<lparr>error := payload\<rparr>"
| "cartReducer state (ADD_ITEM payload) =
     (let existingItemIndex = findIndex (same_line payload) (items state);
          newItems =
            (if 0 \<le> existingItemIndex
             then map (\<lambda>(index, item).
                         if int index = existingItemIndex then merge_item payload item else item)
                      (enumerate 0 (items state))
             else items state @ [payload])
      in state\<lparr>items := newItems\<rparr>)"
| "cartReducer state (REMOVE_ITEM payload) =
     state\<lparr>items := filter (\<lambda>item. item_id item \<noteq> payload) (items state)\<rparr>"
| "cartReducer state (UPDATE_QUANTITY ident q) =
     (if q \<le> 0
      then state\<lparr>items := filter (\<lambda>item. item_id item \<noteq> ident) (items state)\<rparr>
      else state\<lparr>items := map (\<lambda>item. if item_id item = ident then set_quantity q item else item)
                                 (items state)\<rparr>)"
| "cartReducer state CLEAR_CART = state\<lparr>items := [], discounts := [], shipping := None\<rparr>"
| "cartReducer state (APPLY_DISCOUNT payload) =
     state\<lparr>discounts := filter (\<lambda>d. code d \<noteq> code payload) (discounts state) @ [payload]\<rparr>"
| "cartReducer state (REMOVE_DISCOUNT payload) =
     state\<lparr>discounts := filter (\<lambda>d. code d \<noteq> payload) (discounts state)\<rparr>"
| "cartReducer state (SET_SHIPPING payload) = state\<lparr>shipping := Some payload\<rparr>"
| "cartReducer state CALCULATE_SUMMARY =
     state\<lparr>summary := calculateCartSummary (items state) (discounts state) (shipping state)\<rparr>"

text \<open>
  The provider's callbacks. \<^verbatim>\<open>addItem\<close> receives an item without \<^verbatim>\<open>id\<close> and \<^verbatim>\<open>total\<close>
  and derives both; the argument is a \<^typ>\<open>CartItem\<close> whose two fields are overwritten, as the
  object spread does. An empty variant id is falsy, so it also yields \<^verbatim>\<open>'default'\<close>.
\<close>

definition new_cart_item :: "CartItem \<Rightarrow> CartItem" where
  "new_cart_item item =
     item\<lparr>item_id := productId item @ ''-'' @
                 (case variant_id item of
                    None \<Rightarrow> ''default''
                  | Some i \<Rightarrow> if i = [] then ''default'' else i),
          total := fmul (quantity item) (js_or (variant_price item) (price item))\<rparr>"

definition addItem :: "CartState \<Rightarrow> CartItem \<Rightarrow> CartState" where
  "addItem state item = cartReducer state (ADD_ITEM (new_cart_item item))"

definition removeItem :: "CartState \<Rightarrow> string \<Rightarrow> CartState" where
  "removeItem state itemId = cartReducer state (REMOVE_ITEM itemId)"

definition updateQuantity :: "CartState \<Rightarrow> string \<Rightarrow> number \<Rightarrow> CartState" where
  "updateQuantity state itemId q = cartReducer state (UPDATE_QUANTITY itemId q)"

definition clearCart :: "CartState \<Rightarrow> CartState" where
  "clearCart state = cartReducer state CLEAR_CART"

definition applyDiscount :: "CartState \<Rightarrow> CartDiscount \<Rightarrow> CartState" where
  "applyDiscount state discount = cartReducer state (APPLY_DISCOUNT discount)"

definition removeDiscount :: "CartState \<Rightarrow> string \<Rightarrow> CartState" where
  "removeDiscount state c = cartReducer state (REMOVE_DISCOUNT c)"

definition setShippingMethod :: "CartState \<Rightarrow> CartShipping \<Rightarrow> CartState" where
  "setShippingMethod state sh = cartReducer state (SET_SHIPPING sh)"

text \<open>
  The provider's first effect: once a render has committed a state whose items, discounts,
  shipping or initialisation flag changed, it dispatches \<^verbatim>\<open>CALCULATE_SUMMARY\<close>, provided the
  cart is initialised.
\<close>

definition summary_effect :: "CartState \<Rightarrow> CartState" where
  "summary_effect state =
     (if isInitialized state then cartReducer state CALCULATE_SUMMARY else state)"

text \<open>The seven mutating operations of the cart context, as one type.\<close>

datatype CartOp =
    AddItem CartItem
  | RemoveItem string
  | UpdateQuantity string number
  | ClearCart
  | ApplyDiscount CartDiscount
  | RemoveDiscount string
  | SetShippingMethod CartShipping

fun perform :: "CartState \<Rightarrow> CartOp \<Rightarrow> CartState" where
  "perform state (AddItem item) = addItem state item"
| "perform state (RemoveItem itemId) = removeItem state itemId"
| "perform state (UpdateQuantity itemId q) = updateQuantity state itemId q"
| "perform state ClearCart = clearCart state"
| "perform state (ApplyDiscount discount) = applyDiscount state discount"
| "perform state (RemoveDiscount c) = removeDiscount state c"
| "perform state (SetShippingMethod sh) = setShippingMethod state sh"

section \<open>The safe wrappers (useCartEnhanced)\<close>

text \<open>
  The body of the \<^verbatim>\<open>try\<close> block of \<^verbatim>\<open>applyDiscountSafely\<close>: \<open>Inl\<close> is the message of the
  \<^verbatim>\<open>Error\<close> it throws, \<open>Inr\<close> the cart after \<^verbatim>\<open>cart.applyDiscount\<close>.
\<close>

definition applyDiscountSafely_try :: "CartState \<Rightarrow> CartDiscount \<Rightarrow> string + CartState" where
  "applyDiscountSafely_try cart discount =
     (if list_ex (\<lambda>d. code d = code discount) (discounts cart)
      then Inl ''Discount code already applied''
      else if discount_value discount \<le> 0
      then Inl ''Discount value must be greater than 0''
      else if discount_type discount = percentage \<and> 100 < discount_value discount
      then Inl ''Percentage discount cannot exceed 100%''
      else Inr (applyDiscount cart discount))"

text \<open>The \<^verbatim>\<open>catch\<close> block stores the message in \<^verbatim>\<open>cart.cart.error\<close> and returns normally.\<close>

definition applyDiscountSafely :: "CartState \<Rightarrow> CartDiscount \<Rightarrow> CartState" where
  "applyDiscountSafely cart discount =
     (case applyDiscountSafely_try cart discount of
        Inl message \<Rightarrow> cart\<lparr>error := Some message\<rparr>
      | Inr cart' \<Rightarrow> cart')"

section \<open>Loading the persisted cart (CartProvider)\<close>















section \<open>The specification's reading of a line total\<close>

text \<open>
  The unit price as the specification words it: the variant price if a variant is present,
  otherwise the item's price. The code computes \<^verbatim>\<open>item.variant?.price || item.price\<close>.
\<close>

definition spec_unitPrice :: "CartItem \<Rightarrow> number" where
  "spec_unitPrice item = (case variant item of Some v \<Rightarrow> v_price v | None \<Rightarrow> price item)"

definition spec_line_total :: "CartItem \<Rightarrow> bool" where
  "spec_line_total item \<longleftrightarrow> total item = fmul (quantity item) (spec_unitPrice item)"

text \<open>The unit price as the code computes it, and the line total it implies.\<close>

definition unitPrice :: "CartItem \<Rightarrow> number" where
  "unitPrice item = js_or (variant_price item) (price item)"

definition line_total :: "CartItem \<Rightarrow> bool" where
  "line_total item \<longleftrightarrow> total item = fmul (quantity item) (unitPrice item)"

text \<open>
  Running a list of operations, the summary effect after each. An operation is price-stable
  when it is not an \<^verbatim>\<open>addItem\<close> for a line already in the cart, or carries the variant price
  that the stored line has.
\<close>

fun run :: "CartState \<Rightarrow> CartOp list \<Rightarrow> CartState" where
  "run state [] = state"
| "run state (op # ops) = run (summary_effect (perform state op)) ops"

fun price_stable :: "CartState \<Rightarrow> CartOp \<Rightarrow> bool" where
  "price_stable state (AddItem c) =
     list_all (\<lambda>item. same_line (new_cart_item c) item \<longrightarrow> variant_price item = variant_price c)
       (items state)"
| "price_stable state _ = True"

fun stable_run :: "CartState \<Rightarrow> CartOp list \<Rightarrow> bool" where
  "stable_run state [] = True"
| "stable_run state (op # ops) =
     (price_stable state op \<and> stable_run (summary_effect (perform state op)) ops)"

definition is_free_shipping :: "CartDiscount \<Rightarrow> bool" where
  "is_free_shipping d \<longleftrightarrow> discount_type d = free_shipping"

text \<open>
  What one discount adds to \<^verbatim>\<open>discountAmount\<close>; a \<^verbatim>\<open>free_shipping\<close> discount adds nothing
  (no addition is performed for it).
\<close>

definition contribution :: "number \<Rightarrow> CartDiscount \<Rightarrow> number" where
  "contribution sub d =
     (case discount_type d of
        percentage \<Rightarrow> fdiv (fmul sub (discount_value d)) 100
      | fixed_amount \<Rightarrow> min (discount_value d) sub
      | free_shipping \<Rightarrow> 0)"

definition contributions :: "number \<Rightarrow> CartDiscount list \<Rightarrow> number list" where
  "contributions sub ds = map (contribution sub) (filter (\<lambda>d. \<not> is_free_shipping d) ds)"

section \<open>Sample inputs\<close>

definition sample_product :: Product where
  "sample_product =
     \<lparr>product_id = ''p1'', product_name = ''Tee'', product_shipping = Some \<lparr>weight = 1 / 2\<rparr>\<rparr>"

text \<open>An \<^verbatim>\<open>addItem\<close> argument without a variant, with the given price and quantity.\<close>

definition plain_item :: "number \<Rightarrow> number \<Rightarrow> CartItem" where
  "plain_item p q =
     \<lparr>item_id = [], productId = ''p1'', item_product = sample_product, variant = None,
      quantity = q, price = p, total = 0\<rparr>"

text \<open>An \<^verbatim>\<open>addItem\<close> argument for variant \<^verbatim>\<open>v1\<close> of the same product, base price 10.\<close>

definition variant_item :: "number \<Rightarrow> number \<Rightarrow> CartItem" where
  "variant_item vp q =
     \<lparr>item_id = [], productId = ''p1'', item_product = sample_product,
      variant = Some \<lparr>v_id = ''v1'', v_name = ''Large'', v_sku = ''TEE-L'', v_attributes = [],
                      v_price = vp\<rparr>,
      quantity = q, price = 10, total = 0\<rparr>"

definition discount_of :: "string \<Rightarrow> DiscountType \<Rightarrow> number \<Rightarrow> CartDiscount" where
  "discount_of c k v =
     \<lparr>code = c, discount_type = k, discount_value = v, description = [], appliedAt = None\<rparr>"

definition sample_shipping :: CartShipping where
  "sample_shipping =
     \<lparr>shipping_method = ''standard'', cost = 5, estimatedDays = 3, carrier = None\<rparr>"

text \<open>Three fixed-amount discounts of 0.1, 0.2 and 0.3, in the order they were applied.\<close>

definition three_amounts :: "CartDiscount list" where
  "three_amounts =
     [discount_of ''A'' fixed_amount (to_double (1 / 10)),
      discount_of ''B'' fixed_amount (to_double (1 / 5)),
      discount_of ''C'' fixed_amount (to_double (3 / 10))]"


text \<open>The empty cart after the load effect has initialised it.\<close>

definition readyState :: CartState where
  "readyState = initialState\<lparr>isInitialized := True\<rparr>"

section \<open>Facts about the arithmetic\<close>

lemma double_one_tenth: "to_double (1 / 10) = 3602879701896397 / 36028797018963968"
  by code_simp

lemma fmul_2_20: "fmul 2 20 = 40"
  by code_simp

lemma fadd_0_40: "fadd 0 40 = 40"
  by code_simp

lemma fmul_40_10: "fmul 40 10 = 400"
  by code_simp

lemma fdiv_400_100: "fdiv 400 100 = 4"
  by code_simp

lemma fadd_0_4: "fadd 0 4 = 4"
  by code_simp

lemma fadd_0_2: "fadd 0 2 = 2"
  by code_simp

lemma fsub_40_4: "fsub 40 4 = 36"
  by code_simp

lemma fmul_36_tax: "fmul 36 (to_double (2 / 25)) = to_double (72 / 25)"
  by code_simp

lemma fadd_36_tax: "fadd 36 (to_double (72 / 25)) = to_double (972 / 25)"
  by code_simp

lemma fadd_total_0: "fadd (to_double (972 / 25)) 0 = to_double (972 / 25)"
  by code_simp

section \<open>The pricing scenario\<close>

text \<open>
  Claim C2. A cart holding exactly one item with unit price 20 and quantity 2 (its total as
  \<^verbatim>\<open>addItem\<close> derives it), one percentage discount of value 10 and no shipping selection
  has subtotal 40, discountAmount 4, taxAmount 2.88, shippingAmount 0 and total 38.88, where
  2.88 and 38.88 are the doubles that these literals denote.
\<close>

theorem C2_scenario:
  assumes "quantity item = 2"
    and "js_or (variant_price item) (price item) = 20"
    and "discount_type d = percentage"
    and "discount_value d = 10"
  shows "calculateCartSummary [new_cart_item item] [d] None =
           \<lparr>subtotal = 40, taxAmount = to_double (72 / 25), shippingAmount = 0,
            discountAmount = 4, summary_total = to_double (972 / 25), itemCount = 2,
            summary_weight = fadd 0 (fmul (item_weight item) 2)\<rparr>"
  using assms
  by (simp add: calculateCartSummary_def new_cart_item_def discount_step_def item_weight_def
      fmul_2_20 fadd_0_40 fmul_40_10 fdiv_400_100 fadd_0_4 fadd_0_2 fsub_40_4 fmul_36_tax fadd_36_tax
      fadd_total_0)

theorem C2_scenario_witness:
  "quantity (plain_item 20 2) = 2
   \<and> js_or (variant_price (plain_item 20 2)) (price (plain_item 20 2)) = 20
   \<and> discount_type (discount_of ''TEN'' percentage 10) = percentage
   \<and> discount_value (discount_of ''TEN'' percentage 10) = 10
   \<and> subtotal (calculateCartSummary [new_cart_item (plain_item 20 2)]
                  [discount_of ''TEN'' percentage 10] None) = 40
   \<and> taxAmount (calculateCartSummary [new_cart_item (plain_item 20 2)]
                  [discount_of ''TEN'' percentage 10] None) = to_double (72 / 25)
   \<and> summary_total (calculateCartSummary [new_cart_item (plain_item 20 2)]
                  [discount_of ''TEN'' percentage 10] None) = to_double (972 / 25)"
  using C2_scenario [of "plain_item 20 2" "discount_of ''TEN'' percentage 10"]
  by (simp add: plain_item_def discount_of_def variant_price_def)

section \<open>Facts about the calculator\<close>

lemma snd_foldl_discount_step:
  "snd (foldl (discount_step sub) (a, b) ds) = (if list_ex is_free_shipping ds then 0 else b)"
  by (induction ds arbitrary: a b)
     (auto simp: discount_step_def is_free_shipping_def split: DiscountType.splits)

lemma fst_foldl_discount_step:
  "fst (foldl (discount_step sub) (a, b) ds) = foldl fadd a (contributions sub ds)"
  by (induction ds arbitrary: a b)
     (auto simp: discount_step_def is_free_shipping_def contributions_def contribution_def
           split: DiscountType.splits)

lemma subtotal_calc:
  "subtotal (calculateCartSummary its ds sh) = foldl (\<lambda>sum item. fadd sum (total item)) 0 its"
  by (simp add: calculateCartSummary_def Let_def)

lemma itemCount_calc:
  "itemCount (calculateCartSummary its ds sh) =
     foldl (\<lambda>sum item. fadd sum (quantity item)) 0 its"
  by (simp add: calculateCartSummary_def Let_def)

lemma summary_weight_calc:
  "summary_weight (calculateCartSummary its ds sh) =
     foldl (\<lambda>sum item. fadd sum (fmul (item_weight item) (quantity item))) 0 its"
  by (simp add: calculateCartSummary_def Let_def)

lemma shippingAmount_calc:
  "shippingAmount (calculateCartSummary its ds sh) =
     (if list_ex is_free_shipping ds then 0 else js_or (map_option cost sh) 0)"
  by (simp add: calculateCartSummary_def Let_def snd_foldl_discount_step)

lemma discountAmount_calc:
  "discountAmount (calculateCartSummary its ds sh) =
     foldl fadd 0 (contributions (foldl (\<lambda>sum item. fadd sum (total item)) 0 its) ds)"
  by (simp add: calculateCartSummary_def Let_def fst_foldl_discount_step)

lemma taxAmount_calc:
  "taxAmount (calculateCartSummary its ds sh) =
     fmul (fsub (subtotal (calculateCartSummary its ds sh))
                (discountAmount (calculateCartSummary its ds sh)))
          (to_double (2 / 25))"
  by (simp add: calculateCartSummary_def Let_def)

lemma summary_total_calc:
  "summary_total (calculateCartSummary its ds sh) =
     fadd (fadd (fsub (subtotal (calculateCartSummary its ds sh))
                      (discountAmount (calculateCartSummary its ds sh)))
                (taxAmount (calculateCartSummary its ds sh)))
          (shippingAmount (calculateCartSummary its ds sh))"
  by (simp add: calculateCartSummary_def Let_def)

lemma js_or_cost: "js_or (map_option cost sh) 0 = (case sh of None \<Rightarrow> 0 | Some x \<Rightarrow> cost x)"
  by (cases sh) auto

section \<open>Facts about the store\<close>

lemmas op_defs = addItem_def removeItem_def updateQuantity_def clearCart_def
  applyDiscount_def removeDiscount_def setShippingMethod_def

lemma perform_summary: "summary (perform s op) = summary s"
  by (cases op) (simp_all add: op_defs Let_def)

lemma perform_isInitialized: "isInitialized (perform s op) = isInitialized s"
  by (cases op) (simp_all add: op_defs Let_def)

lemma new_cart_item_fields:
  "productId (new_cart_item c) = productId c"
  "variant_id (new_cart_item c) = variant_id c"
  "variant (new_cart_item c) = variant c"
  "quantity (new_cart_item c) = quantity c"
  "price (new_cart_item c) = price c"
  "total (new_cart_item c) = fmul (quantity c) (js_or (variant_price c) (price c))"
  by (simp_all add: new_cart_item_def variant_id_def)

lemma merge_item_fields:
  "productId (merge_item p it) = productId it"
  "variant_id (merge_item p it) = variant_id it"
  "variant (merge_item p it) = variant it"
  "price (merge_item p it) = price it"
  "item_id (merge_item p it) = item_id it"
  "quantity (merge_item p it) = fadd (quantity it) (quantity p)"
  "total (merge_item p it) =
     fmul (fadd (quantity it) (quantity p)) (js_or (variant_price p) (price it))"
  by (simp_all add: merge_item_def variant_id_def)

lemma addItem_empty: "items s = [] \<Longrightarrow> items (addItem s c) = [new_cart_item c]"
  by (simp add: addItem_def)

lemma addItem_single_same:
  assumes "items s = [it]" and "productId it = productId c" and "variant_id it = variant_id c"
  shows "items (addItem s c) = [merge_item (new_cart_item c) it]"
  using assms by (simp add: addItem_def same_line_def enumerate_eq_zip new_cart_item_fields)

section \<open>Summary consistency\<close>

text \<open>
  Claim C1, as stated, fails: the reducer case of an operation leaves \<open>summary\<close> as it was.
  On the initialised empty cart, after \<^verbatim>\<open>addItem\<close> of two units at price 20 the state holds
  the item but still the all-zero summary, while the calculator gives subtotal 40.
\<close>

theorem C1_stale_summary_counterexample:
  "subtotal (summary (perform readyState (AddItem (plain_item 20 2)))) = 0
   \<and> subtotal (calculateCartSummary (items (perform readyState (AddItem (plain_item 20 2))))
                 (discounts (perform readyState (AddItem (plain_item 20 2))))
                 (shipping (perform readyState (AddItem (plain_item 20 2))))) = 40
   \<and> summary (perform readyState (AddItem (plain_item 20 2))) \<noteq>
       calculateCartSummary (items (perform readyState (AddItem (plain_item 20 2))))
         (discounts (perform readyState (AddItem (plain_item 20 2))))
         (shipping (perform readyState (AddItem (plain_item 20 2))))"
proof -
  let ?s = "perform readyState (AddItem (plain_item 20 2))"
  have old: "subtotal (summary ?s) = 0"
    by (simp only: perform_summary) (simp add: readyState_def initialState_def)
  have "items ?s = [new_cart_item (plain_item 20 2)]"
    by (simp add: addItem_empty readyState_def initialState_def)
  then have new: "subtotal (calculateCartSummary (items ?s) (discounts ?s) (shipping ?s)) = 40"
    by (simp add: subtotal_calc new_cart_item_fields plain_item_def variant_price_def
        fmul_2_20 fadd_0_40)
  from old new show ?thesis by auto
qed

text \<open>
  Claim C1, amended. For every initialised state and each of the seven operations: once the
  provider's summary effect has run after the operation, \<open>summary\<close> equals
  \<open>calculateCartSummary\<close> of the items, discounts and shipping of that state; the operation's
  own reducer step leaves \<open>summary\<close> unchanged.
\<close>

theorem C1_summary_after_effect:
  assumes "isInitialized s"
  shows "summary (summary_effect (perform s op)) =
           calculateCartSummary (items (summary_effect (perform s op)))
             (discounts (summary_effect (perform s op)))
             (shipping (summary_effect (perform s op)))
         \<and> summary (perform s op) = summary s"
  using assms by (simp add: summary_effect_def perform_isInitialized perform_summary)

theorem C1_summary_after_effect_witness:
  "isInitialized readyState
   \<and> summary (summary_effect (perform readyState (AddItem (plain_item 20 2)))) =
       calculateCartSummary
         (items (summary_effect (perform readyState (AddItem (plain_item 20 2)))))
         (discounts (summary_effect (perform readyState (AddItem (plain_item 20 2)))))
         (shipping (summary_effect (perform readyState (AddItem (plain_item 20 2)))))
   \<and> summary (perform readyState (AddItem (plain_item 20 2))) = summary readyState"
proof -
  have init: "isInitialized readyState"
    by (simp add: readyState_def)
  from init C1_summary_after_effect [OF init, of "AddItem (plain_item 20 2)"]
  show ?thesis by simp
qed

section \<open>Doubles that are exact\<close>

lemma bitlen_one: "bitlen 1 = 1"
  by code_simp

lemma round_half_even_of_int: "round_half_even (of_int m) = m"
  by (simp add: round_half_even_def)

lemma pow2_nonpos: "k \<le> 0 \<Longrightarrow> pow2 k = 1 / 2 ^ nat (- k)"
  by (cases "k = 0") (simp_all add: pow2_def)

lemma binade_le: "binade a \<le> bitlen (fst (quotient_of a)) - bitlen (snd (quotient_of a))"
  by (simp add: binade_def Let_def split: prod.splits)

text \<open>Every natural number below \<open>2^53\<close> is a double.\<close>

lemma to_double_of_nat:
  assumes "n < 2 ^ 53"
  shows "to_double (of_nat n) = of_nat n"
proof (cases "n = 0")
  case True
  then show ?thesis by (simp add: to_double_def)
next
  case False
  let ?x = "of_nat n :: rat"
  have q: "quotient_of ?x = (int n, 1)"
    by (rule quotient_of_rat_of_nat)
  have "bitlen (int n) \<le> 53"
    using assms by (simp add: bitlen_le_iff_power)
  then have "binade ?x \<le> 52"
    using binade_le [of ?x] by (simp add: q bitlen_one)
  then have k: "max (binade ?x) (- 1022) - 52 \<le> 0"
    by simp
  define j where "j = nat (- (max (binade ?x) (- 1022) - 52))"
  have ulp: "pow2 (max (binade ?x) (- 1022) - 52) = 1 / 2 ^ j"
    using pow2_nonpos [OF k] by (simp add: j_def)
  have "?x / (1 / 2 ^ j) = of_int (int n * 2 ^ j)"
    by simp
  then have r: "round_half_even (?x / (1 / 2 ^ j)) = int n * 2 ^ j"
    by (simp only: round_half_even_of_int)
  have "to_double ?x = sgn ?x * of_int (round_half_even (\<bar>?x\<bar> / (1 / 2 ^ j))) * (1 / 2 ^ j)"
    using False by (simp add: to_double_def Let_def ulp)
  also have "\<dots> = of_int (int n * 2 ^ j) * (1 / 2 ^ j)"
    using False by (simp only: abs_of_nat r) simp
  also have "\<dots> = ?x"
    by simp
  finally show ?thesis .
qed

lemma foldl_fadd_of_nat:
  "a + sum_list ns < 2 ^ 53 \<Longrightarrow>
   foldl fadd (of_nat a) (map of_nat ns) = of_nat (a + sum_list ns)"
proof (induction ns arbitrary: a)
  case Nil
  then show ?case by simp
next
  case (Cons n ns)
  have "a + n < 2 ^ 53"
    using Cons.prems by simp
  then have "fadd (of_nat a) (of_nat n) = of_nat (a + n)"
    using to_double_of_nat [of "a + n"] by (simp add: fadd_def)
  moreover have "(a + n) + sum_list ns < 2 ^ 53"
    using Cons.prems by simp
  ultimately show ?case
    using Cons.IH [of "a + n"] by (simp add: add.assoc)
qed

section \<open>Adding the same line repeatedly\<close>

lemma addItem_repeat:
  assumes "items s = [it]"
    and "\<forall>c \<in> set cs. productId c = productId it \<and> variant_id c = variant_id it"
  shows "\<exists>it'. items (foldl addItem s cs) = [it'] \<and> productId it' = productId it
           \<and> variant_id it' = variant_id it
           \<and> quantity it' = foldl fadd (quantity it) (map quantity cs)"
  using assms
proof (induction cs arbitrary: s it)
  case Nil
  then show ?case by simp
next
  case (Cons c cs)
  let ?it = "merge_item (new_cart_item c) it"
  have step: "items (addItem s c) = [?it]"
    using Cons.prems by (simp add: addItem_single_same)
  have "\<forall>c' \<in> set cs. productId c' = productId ?it \<and> variant_id c' = variant_id ?it"
    using Cons.prems by (simp add: merge_item_fields)
  from Cons.IH [OF step this] show ?case
    by (simp add: merge_item_fields new_cart_item_fields)
qed

text \<open>
  Claim C3. Starting from a cart without items, any non-empty sequence of \<^verbatim>\<open>addItem\<close> calls
  whose arguments share one (productId, variant id) pair leaves exactly one line item, for
  that pair, whose quantity is the sum of the quantities passed, added in call order with
  JavaScript's \<^verbatim>\<open>+\<close>. When the quantities are natural numbers with a sum below \<open>2^53\<close>
  (the data model asks for integers \<open>\<ge> 1\<close>), that is their exact sum.
\<close>

theorem C3_same_pair_accumulates:
  assumes "items s = []"
    and "\<forall>c \<in> set cs. productId c = productId c0 \<and> variant_id c = variant_id c0"
  shows "\<exists>it. items (foldl addItem s (c0 # cs)) = [it]
           \<and> productId it = productId c0 \<and> variant_id it = variant_id c0
           \<and> quantity it = foldl fadd (quantity c0) (map quantity cs)
           \<and> (quantity c0 = of_nat n0 \<and> map quantity cs = map of_nat ns
                \<and> n0 + sum_list ns < 2 ^ 53 \<longrightarrow> quantity it = of_nat (n0 + sum_list ns))"
proof -
  have first: "items (addItem s c0) = [new_cart_item c0]"
    using assms(1) by (rule addItem_empty)
  have "\<forall>c \<in> set cs. productId c = productId (new_cart_item c0)
          \<and> variant_id c = variant_id (new_cart_item c0)"
    using assms(2) by (simp add: new_cart_item_fields)
  from addItem_repeat [OF first this] obtain it where
    it: "items (foldl addItem s (c0 # cs)) = [it]" "productId it = productId c0"
      "variant_id it = variant_id c0"
      "quantity it = foldl fadd (quantity c0) (map quantity cs)"
    by (auto simp: new_cart_item_fields)
  have "quantity it = of_nat (n0 + sum_list ns)"
    if "quantity c0 = of_nat n0" "map quantity cs = map of_nat ns" "n0 + sum_list ns < 2 ^ 53"
    using that it(4) by (simp add: foldl_fadd_of_nat)
  with it show ?thesis by blast
qed

theorem C3_same_pair_accumulates_witness:
  "items initialState = []
   \<and> productId (variant_item 10 3) = productId (variant_item 10 2)
   \<and> variant_id (variant_item 10 3) = variant_id (variant_item 10 2)
   \<and> productId (variant_item 10 1) = productId (variant_item 10 2)
   \<and> variant_id (variant_item 10 1) = variant_id (variant_item 10 2)
   \<and> (\<exists>it. items (foldl addItem initialState
                [variant_item 10 2, variant_item 10 3, variant_item 10 1]) = [it]
          \<and> productId it = ''p1'' \<and> variant_id it = Some ''v1'' \<and> quantity it = 6)"
proof -
  have e: "items initialState = []"
    by (simp add: initialState_def)
  have k: "\<forall>c \<in> set [variant_item 10 3, variant_item 10 1].
         productId c = productId (variant_item 10 2)
         \<and> variant_id c = variant_id (variant_item 10 2)"
    by (simp add: variant_item_def variant_id_def)
  have q: "quantity (variant_item 10 2) = of_nat 2
      \<and> map quantity [variant_item 10 3, variant_item 10 1] = map of_nat [3, 1]
      \<and> (2::nat) + sum_list [3, 1] < 2 ^ 53"
    by (simp add: variant_item_def)
  from C3_same_pair_accumulates [OF e k, of 2 "[3, 1]"] q
  obtain it where "items (foldl addItem initialState
        [variant_item 10 2, variant_item 10 3, variant_item 10 1]) = [it]"
      "productId it = productId (variant_item 10 2)"
      "variant_id it = variant_id (variant_item 10 2)"
      "quantity it = of_nat (2 + sum_list [3, 1])"
    by blast
  then have "\<exists>it. items (foldl addItem initialState
                [variant_item 10 2, variant_item 10 3, variant_item 10 1]) = [it]
          \<and> productId it = ''p1'' \<and> variant_id it = Some ''v1'' \<and> quantity it = 6"
    by (simp add: variant_item_def variant_id_def)
  with e k show ?thesis by simp
qed

section \<open>Free shipping\<close>

lemma no_free_shipping_after_remove:
  assumes "list_all (\<lambda>d. is_free_shipping d \<longrightarrow> code d = c) ds"
  shows "\<not> list_ex is_free_shipping (filter (\<lambda>d. code d \<noteq> c) ds)"
  using assms by (auto simp: list_all_iff list_ex_iff)

text \<open>
  Claim C5. If a \<^verbatim>\<open>free_shipping\<close> discount is present, \<open>shippingAmount\<close> is 0 whatever the
  shipping selection, and the whole summary (the total included) does not depend on the
  selection. If none is present, \<open>shippingAmount\<close> is the selected cost (0 without a
  selection). Hence, in an initialised cart whose free-shipping discounts all carry the code
  \<open>c\<close>, \<^verbatim>\<open>removeDiscount(c)\<close> followed by the recomputation restores the selected cost.
\<close>

theorem C5_free_shipping:
  "(list_ex is_free_shipping ds \<longrightarrow>
      shippingAmount (calculateCartSummary its ds sh) = 0
      \<and> calculateCartSummary its ds sh = calculateCartSummary its ds sh')
   \<and> (\<not> list_ex is_free_shipping ds \<longrightarrow>
      shippingAmount (calculateCartSummary its ds sh) =
        (case sh of None \<Rightarrow> 0 | Some x \<Rightarrow> cost x))
   \<and> (isInitialized s \<and> list_all (\<lambda>d. is_free_shipping d \<longrightarrow> code d = c) (discounts s) \<longrightarrow>
      shippingAmount (summary (summary_effect (removeDiscount s c))) =
        (case shipping s of None \<Rightarrow> 0 | Some x \<Rightarrow> cost x))"
proof (intro conjI impI)
  assume "list_ex is_free_shipping ds"
  then show "shippingAmount (calculateCartSummary its ds sh) = 0"
    and "calculateCartSummary its ds sh = calculateCartSummary its ds sh'"
    by (simp_all add: calculateCartSummary_def Let_def snd_foldl_discount_step
        fst_foldl_discount_step)
next
  assume "\<not> list_ex is_free_shipping ds"
  then show "shippingAmount (calculateCartSummary its ds sh) =
      (case sh of None \<Rightarrow> 0 | Some x \<Rightarrow> cost x)"
    by (simp add: shippingAmount_calc js_or_cost)
next
  assume a: "isInitialized s \<and> list_all (\<lambda>d. is_free_shipping d \<longrightarrow> code d = c) (discounts s)"
  then have "\<not> list_ex is_free_shipping (filter (\<lambda>d. code d \<noteq> c) (discounts s))"
    by (simp add: no_free_shipping_after_remove)
  with a show "shippingAmount (summary (summary_effect (removeDiscount s c))) =
      (case shipping s of None \<Rightarrow> 0 | Some x \<Rightarrow> cost x)"
    by (simp add: summary_effect_def removeDiscount_def shippingAmount_calc js_or_cost)
qed

theorem C5_free_shipping_witness:
  "list_ex is_free_shipping [discount_of ''SHIP'' free_shipping 0]
   \<and> shippingAmount (calculateCartSummary [new_cart_item (plain_item 20 2)]
        [discount_of ''SHIP'' free_shipping 0] (Some sample_shipping)) = 0
   \<and> calculateCartSummary [new_cart_item (plain_item 20 2)]
        [discount_of ''SHIP'' free_shipping 0] (Some sample_shipping) =
       calculateCartSummary [new_cart_item (plain_item 20 2)]
        [discount_of ''SHIP'' free_shipping 0] None
   \<and> \<not> list_ex is_free_shipping [discount_of ''TEN'' percentage 10]
   \<and> shippingAmount (calculateCartSummary [new_cart_item (plain_item 20 2)]
        [discount_of ''TEN'' percentage 10] (Some sample_shipping)) = cost sample_shipping
   \<and> isInitialized (readyState\<lparr>discounts := [discount_of ''SHIP'' free_shipping 0],
                                 shipping := Some sample_shipping\<rparr>)
   \<and> shippingAmount (summary (summary_effect (removeDiscount
        (readyState\<lparr>discounts := [discount_of ''SHIP'' free_shipping 0],
                     shipping := Some sample_shipping\<rparr>) ''SHIP''))) = cost sample_shipping"
proof -
  let ?free = "[discount_of ''SHIP'' free_shipping 0]"
  let ?ten = "[discount_of ''TEN'' percentage 10]"
  let ?its = "[new_cart_item (plain_item 20 2)]"
  let ?s = "readyState\<lparr>discounts := ?free, shipping := Some sample_shipping\<rparr>"
  have f: "list_ex is_free_shipping ?free"
    by (simp add: is_free_shipping_def discount_of_def)
  have n: "\<not> list_ex is_free_shipping ?ten"
    by (simp add: is_free_shipping_def discount_of_def)
  have i: "isInitialized ?s
      \<and> list_all (\<lambda>d. is_free_shipping d \<longrightarrow> code d = ''SHIP'') (discounts ?s)"
    by (simp add: readyState_def discount_of_def)
  have A: "shippingAmount (calculateCartSummary ?its ?free (Some sample_shipping)) = 0
      \<and> calculateCartSummary ?its ?free (Some sample_shipping) =
          calculateCartSummary ?its ?free None"
    using f C5_free_shipping [of ?free ?its "Some sample_shipping" None ?s "''SHIP''"]
    by blast
  have B: "shippingAmount (calculateCartSummary ?its ?ten (Some sample_shipping)) =
      cost sample_shipping"
    using n C5_free_shipping [of ?ten ?its "Some sample_shipping" None ?s "''SHIP''"]
    by simp
  have C: "shippingAmount (summary (summary_effect (removeDiscount ?s ''SHIP''))) =
      cost sample_shipping"
    using i C5_free_shipping [of ?free ?its "Some sample_shipping" None ?s "''SHIP''"]
    by simp
  from f n i A B C show ?thesis
    by blast
qed

section \<open>Quantity zero removes\<close>

text \<open>
  Claim C6. For every cart state and item id, \<^verbatim>\<open>updateQuantity(id, q)\<close> with \<open>q \<le> 0\<close> yields
  the state that \<^verbatim>\<open>removeItem(id)\<close> yields; \<^verbatim>\<open>updateQuantity(id, 0)\<close> and \<^verbatim>\<open>removeItem(id)\<close>
  are the same function on cart states.
\<close>

theorem C6_update_nonpositive_is_remove:
  "(q \<le> 0 \<longrightarrow> updateQuantity s i q = removeItem s i)
   \<and> (\<lambda>s. updateQuantity s i 0) = (\<lambda>s. removeItem s i)"
  by (simp add: updateQuantity_def removeItem_def)

theorem C6_update_nonpositive_is_remove_witness:
  "(- 1 :: number) \<le> 0
   \<and> updateQuantity (addItem readyState (plain_item 20 2)) ''p1-default'' (- 1) =
       removeItem (addItem readyState (plain_item 20 2)) ''p1-default''
   \<and> items (updateQuantity (addItem readyState (plain_item 20 2)) ''p1-default'' (- 1)) = []"
proof -
  have "items (addItem readyState (plain_item 20 2)) = [new_cart_item (plain_item 20 2)]"
    by (simp add: addItem_empty readyState_def initialState_def)
  then have "items (removeItem (addItem readyState (plain_item 20 2)) ''p1-default'') = []"
    by (simp add: removeItem_def new_cart_item_def plain_item_def variant_id_def)
  with C6_update_nonpositive_is_remove
         [of "- 1" "addItem readyState (plain_item 20 2)" "''p1-default''"]
  show ?thesis by simp
qed

section \<open>Discounts beyond the subtotal\<close>

lemma fmul_1_10: "fmul 1 10 = 10"
  by code_simp

lemma fadd_0_10: "fadd 0 10 = 10"
  by code_simp

lemma fmul_10_100: "fmul 10 100 = 1000"
  by code_simp

lemma fdiv_1000_100: "fdiv 1000 100 = 10"
  by code_simp

lemma fadd_10_10: "fadd 10 10 = 20"
  by code_simp

lemma fsub_10_20: "fsub 10 20 = - 10"
  by code_simp

lemma negative_tax: "fmul (- 10) (to_double (2 / 25)) = - (3602879701896397 / 4503599627370496)"
  by code_simp

lemma negative_total:
  "fadd (fadd (- 10) (- (3602879701896397 / 4503599627370496))) 0 =
     - (3039929748475085 / 281474976710656)"
  by code_simp

lemma double_discount_summary:
  "calculateCartSummary [new_cart_item (plain_item 10 1)]
     [discount_of ''A'' percentage 100, discount_of ''B'' percentage 100] None =
   \<lparr>subtotal = 10, taxAmount = - (3602879701896397 / 4503599627370496), shippingAmount = 0,
    discountAmount = 20, summary_total = - (3039929748475085 / 281474976710656),
    itemCount = fadd 0 1, summary_weight = fadd 0 (fmul (1 / 2) 1)\<rparr>"
  by (simp add: calculateCartSummary_def Let_def discount_step_def new_cart_item_def
      plain_item_def discount_of_def variant_price_def variant_id_def item_weight_def
      sample_product_def fmul_1_10 fadd_0_10 fmul_10_100 fdiv_1000_100 fadd_10_10 fsub_10_20
      negative_tax negative_total)

text \<open>
  Claim C7. There is an input whose accumulated discount exceeds the subtotal and for which
  \<open>calculateCartSummary\<close> returns a negative tax and, with no shipping, a negative total: one
  item of total 10 with two 100 percent discounts gives discountAmount 20, tax about -0.8 and
  total about -10.8. For every input the tax is \<open>(subtotal - discountAmount) * 0.08\<close> and the
  total is built from the same difference: nothing clamps it at zero.
\<close>

theorem C7_negative_tax_and_total:
  "(\<exists>its ds. subtotal (calculateCartSummary its ds None)
                < discountAmount (calculateCartSummary its ds None)
       \<and> taxAmount (calculateCartSummary its ds None) < 0
       \<and> shippingAmount (calculateCartSummary its ds None) = 0
       \<and> summary_total (calculateCartSummary its ds None) < 0)
   \<and> taxAmount (calculateCartSummary its' ds' sh') =
       fmul (fsub (subtotal (calculateCartSummary its' ds' sh'))
                  (discountAmount (calculateCartSummary its' ds' sh')))
            (to_double (2 / 25))
   \<and> summary_total (calculateCartSummary its' ds' sh') =
       fadd (fadd (fsub (subtotal (calculateCartSummary its' ds' sh'))
                        (discountAmount (calculateCartSummary its' ds' sh')))
                  (taxAmount (calculateCartSummary its' ds' sh')))
            (shippingAmount (calculateCartSummary its' ds' sh'))"
proof (intro conjI)
  show "\<exists>its ds. subtotal (calculateCartSummary its ds None)
                < discountAmount (calculateCartSummary its ds None)
       \<and> taxAmount (calculateCartSummary its ds None) < 0
       \<and> shippingAmount (calculateCartSummary its ds None) = 0
       \<and> summary_total (calculateCartSummary its ds None) < 0"
    by (rule exI [of _ "[new_cart_item (plain_item 10 1)]"],
        rule exI [of _ "[discount_of ''A'' percentage 100, discount_of ''B'' percentage 100]"])
       (simp add: double_discount_summary)
qed (rule taxAmount_calc, rule summary_total_calc)

section \<open>The safe discount wrapper\<close>

text \<open>
  Claim C8. For every cart state and discount, \<^verbatim>\<open>applyDiscountSafely\<close> rejects the discount
  when its code is already among the active discounts, when its value is \<open>\<le> 0\<close>, or when it
  is a percentage above 100. On rejection the \<^verbatim>\<open>try\<close> block has thrown one of its three
  messages, the wrapper returns normally, and the cart it leaves is the old one with that
  message in \<open>error\<close>: items, discounts, shipping (and summary) are unchanged.
\<close>

theorem C8_rejects_and_reports:
  assumes "code d \<in> code ` set (discounts s) \<or> discount_value d \<le> 0
           \<or> (discount_type d = percentage \<and> 100 < discount_value d)"
  shows "\<exists>message. applyDiscountSafely_try s d = Inl message
           \<and> message \<in> {''Discount code already applied'',
                         ''Discount value must be greater than 0'',
                         ''Percentage discount cannot exceed 100%''}
           \<and> applyDiscountSafely s d = s\<lparr>error := Some message\<rparr>
           \<and> items (applyDiscountSafely s d) = items s
           \<and> discounts (applyDiscountSafely s d) = discounts s
           \<and> shipping (applyDiscountSafely s d) = shipping s
           \<and> summary (applyDiscountSafely s d) = summary s
           \<and> error (applyDiscountSafely s d) = Some message"
  using assms
  by (auto simp: applyDiscountSafely_def applyDiscountSafely_try_def list_ex_iff)

theorem C8_rejects_and_reports_witness:
  "100 < discount_value (discount_of ''BIG'' percentage 150)
   \<and> discount_type (discount_of ''BIG'' percentage 150) = percentage
   \<and> applyDiscountSafely readyState (discount_of ''BIG'' percentage 150) =
       readyState\<lparr>error := Some ''Percentage discount cannot exceed 100%''\<rparr>
   \<and> discounts (applyDiscountSafely readyState (discount_of ''BIG'' percentage 150)) = []"
proof -
  have h: "discount_type (discount_of ''BIG'' percentage 150) = percentage
      \<and> 100 < discount_value (discount_of ''BIG'' percentage 150)"
    by (simp add: discount_of_def)
  have t: "applyDiscountSafely_try readyState (discount_of ''BIG'' percentage 150) =
      Inl ''Percentage discount cannot exceed 100%''"
    by (simp add: applyDiscountSafely_try_def discount_of_def readyState_def initialState_def)
  from h C8_rejects_and_reports [of "discount_of ''BIG'' percentage 150" readyState]
  obtain message where
    m: "applyDiscountSafely_try readyState (discount_of ''BIG'' percentage 150) = Inl message"
      "applyDiscountSafely readyState (discount_of ''BIG'' percentage 150) =
         readyState\<lparr>error := Some message\<rparr>"
      "discounts (applyDiscountSafely readyState (discount_of ''BIG'' percentage 150)) =
         discounts readyState"
    by blast
  from m(1) t have "message = ''Percentage discount cannot exceed 100%''"
    by simp
  with m h show ?thesis
    by (simp add: readyState_def initialState_def)
qed

section \<open>Loading the persisted cart\<close>





section \<open>Order of the discounts\<close>

lemma mset_contributions:
  "mset (contributions sub ds) =
     image_mset (contribution sub) (filter_mset (\<lambda>d. \<not> is_free_shipping d) (mset ds))"
  by (simp add: contributions_def)

lemma sum_tenths_abc:
  "fadd (fadd (fadd 0 (to_double (1 / 10))) (to_double (1 / 5))) (to_double (3 / 10)) =
     1351079888211149 / 2251799813685248"
  by code_simp

lemma sum_tenths_bca:
  "fadd (fadd (fadd 0 (to_double (1 / 5))) (to_double (3 / 10))) (to_double (1 / 10)) =
     5404319552844595 / 9007199254740992"
  by code_simp

lemma min_tenths:
  "min (to_double (1 / 10)) 100 = to_double (1 / 10)"
  "min (to_double (1 / 5)) 100 = to_double (1 / 5)"
  "min (to_double (3 / 10)) 100 = to_double (3 / 10)"
  by code_simp+

lemma fadd_0_fmul_1_100: "fadd 0 (fmul 1 100) = 100"
  by code_simp

lemma reapply_moves_to_end:
  "discounts (applyDiscount (readyState\<lparr>discounts := three_amounts\<rparr>)
                (discount_of ''A'' fixed_amount (to_double (1 / 10)))) =
     [discount_of ''B'' fixed_amount (to_double (1 / 5)),
      discount_of ''C'' fixed_amount (to_double (3 / 10)),
      discount_of ''A'' fixed_amount (to_double (1 / 10))]"
  by (simp add: applyDiscount_def three_amounts_def discount_of_def)

text \<open>
  Claim C10, as stated, fails. With a subtotal of 100 and the fixed-amount discounts A = 0.1,
  B = 0.2, C = 0.3 applied in this order, discountAmount is 0.6000000000000001; re-applying
  A moves it to the end of the list, a permutation, and discountAmount becomes 0.6: double
  addition is not associative, so the two summaries differ.
\<close>

theorem C10_order_counterexample:
  "mset (discounts (applyDiscount (readyState\<lparr>discounts := three_amounts\<rparr>)
                      (discount_of ''A'' fixed_amount (to_double (1 / 10))))) =
     mset three_amounts
   \<and> discountAmount (calculateCartSummary [new_cart_item (plain_item 100 1)]
        three_amounts None) = 1351079888211149 / 2251799813685248
   \<and> discountAmount (calculateCartSummary [new_cart_item (plain_item 100 1)]
        (discounts (applyDiscount (readyState\<lparr>discounts := three_amounts\<rparr>)
                      (discount_of ''A'' fixed_amount (to_double (1 / 10))))) None) =
       5404319552844595 / 9007199254740992
   \<and> calculateCartSummary [new_cart_item (plain_item 100 1)] three_amounts None \<noteq>
       calculateCartSummary [new_cart_item (plain_item 100 1)]
        (discounts (applyDiscount (readyState\<lparr>discounts := three_amounts\<rparr>)
                      (discount_of ''A'' fixed_amount (to_double (1 / 10))))) None"
proof -
  let ?its = "[new_cart_item (plain_item 100 1)]"
  let ?ds' = "discounts (applyDiscount (readyState\<lparr>discounts := three_amounts\<rparr>)
                (discount_of ''A'' fixed_amount (to_double (1 / 10))))"
  have p: "mset ?ds' = mset three_amounts"
    by (simp only: reapply_moves_to_end) (simp add: three_amounts_def)
  have sub: "foldl (\<lambda>sum item. fadd sum (total item)) 0 ?its = 100"
    by (simp add: new_cart_item_def plain_item_def variant_price_def fadd_0_fmul_1_100)
  have a: "discountAmount (calculateCartSummary ?its three_amounts None) =
      1351079888211149 / 2251799813685248"
    by (simp only: discountAmount_calc sub)
       (simp add: three_amounts_def contributions_def contribution_def is_free_shipping_def
          discount_of_def min_tenths sum_tenths_abc)
  have b: "discountAmount (calculateCartSummary ?its ?ds' None) =
      5404319552844595 / 9007199254740992"
    by (simp only: discountAmount_calc sub reapply_moves_to_end)
       (simp add: contributions_def contribution_def is_free_shipping_def
          discount_of_def min_tenths sum_tenths_bca)
  have "discountAmount (calculateCartSummary ?its three_amounts None) \<noteq>
      discountAmount (calculateCartSummary ?its ?ds' None)"
    by (simp add: a b)
  then have "calculateCartSummary ?its three_amounts None \<noteq> calculateCartSummary ?its ?ds' None"
    by auto
  with p a b show ?thesis by blast
qed

text \<open>
  Claim C10, amended. For discount lists that are permutations of each other (and any items
  and shipping selection) the summaries agree on subtotal, itemCount, weight and
  shippingAmount; discountAmount is the sum, accumulated in list order with JavaScript's
  \<^verbatim>\<open>+\<close>, of the per-discount contributions, and the two lists have the same multiset of
  contributions. Only the rounding of that accumulation (and of the tax and total computed
  from it) can depend on the order.
\<close>

theorem C10_permuted_discounts:
  assumes "mset ds = mset ds'"
  shows "subtotal (calculateCartSummary its ds sh) = subtotal (calculateCartSummary its ds' sh)
     \<and> itemCount (calculateCartSummary its ds sh) = itemCount (calculateCartSummary its ds' sh)
     \<and> summary_weight (calculateCartSummary its ds sh) =
         summary_weight (calculateCartSummary its ds' sh)
     \<and> shippingAmount (calculateCartSummary its ds sh) =
         shippingAmount (calculateCartSummary its ds' sh)
     \<and> discountAmount (calculateCartSummary its ds sh) =
         foldl fadd 0 (contributions (subtotal (calculateCartSummary its ds sh)) ds)
     \<and> mset (contributions (subtotal (calculateCartSummary its ds sh)) ds) =
         mset (contributions (subtotal (calculateCartSummary its ds' sh)) ds')"
proof -
  have "set ds = set ds'"
    using assms by (rule mset_eq_setD)
  then have "list_ex is_free_shipping ds = list_ex is_free_shipping ds'"
    by (simp add: list_ex_iff)
  then show ?thesis
    using assms
    by (simp add: discountAmount_calc [of its ds sh] subtotal_calc itemCount_calc
        summary_weight_calc shippingAmount_calc mset_contributions)
qed

theorem C10_permuted_discounts_witness:
  "mset [discount_of ''TEN'' percentage 10, discount_of ''SHIP'' free_shipping 0] =
     mset [discount_of ''SHIP'' free_shipping 0, discount_of ''TEN'' percentage 10]
   \<and> shippingAmount (calculateCartSummary [new_cart_item (plain_item 20 2)]
        [discount_of ''TEN'' percentage 10, discount_of ''SHIP'' free_shipping 0]
        (Some sample_shipping)) =
      shippingAmount (calculateCartSummary [new_cart_item (plain_item 20 2)]
        [discount_of ''SHIP'' free_shipping 0, discount_of ''TEN'' percentage 10]
        (Some sample_shipping))
   \<and> subtotal (calculateCartSummary [new_cart_item (plain_item 20 2)]
        [discount_of ''TEN'' percentage 10, discount_of ''SHIP'' free_shipping 0]
        (Some sample_shipping)) =
      subtotal (calculateCartSummary [new_cart_item (plain_item 20 2)]
        [discount_of ''SHIP'' free_shipping 0, discount_of ''TEN'' percentage 10]
        (Some sample_shipping))"
proof -
  have p: "mset [discount_of ''TEN'' percentage 10, discount_of ''SHIP'' free_shipping 0] =
     mset [discount_of ''SHIP'' free_shipping 0, discount_of ''TEN'' percentage 10]"
    by (simp add: add.commute)
  from p C10_permuted_discounts [OF p, of "[new_cart_item (plain_item 20 2)]"
      "Some sample_shipping"]
  show ?thesis by blast
qed

section \<open>Line totals\<close>

lemma findIndex_sat:
  "0 \<le> findIndex P xs \<Longrightarrow> nat (findIndex P xs) < length xs \<and> P (xs ! nat (findIndex P xs))"
proof (induction xs)
  case Nil
  then show ?case by simp
next
  case (Cons x xs)
  show ?case
  proof (cases "P x")
    case True
    then show ?thesis by simp
  next
    case False
    with Cons.prems have nn: "0 \<le> findIndex P xs"
      by (simp add: Let_def split: if_splits)
    with False have "findIndex P (x # xs) = findIndex P xs + 1"
      by (simp add: Let_def)
    moreover have "nat (findIndex P xs + 1) = Suc (nat (findIndex P xs))"
      using nn by simp
    ultimately show ?thesis
      using Cons.IH [OF nn] by simp
  qed
qed

lemma line_total_new: "line_total (new_cart_item c)"
  by (simp add: line_total_def unitPrice_def new_cart_item_def variant_price_def)

lemma line_total_set_quantity: "line_total (set_quantity q item)"
  by (simp add: line_total_def unitPrice_def set_quantity_def variant_price_def)

lemma line_total_merge:
  "variant_price item = variant_price p \<Longrightarrow> line_total (merge_item p item)"
  by (simp add: line_total_def unitPrice_def merge_item_def variant_price_def)

lemma variant_price_new: "variant_price (new_cart_item c) = variant_price c"
  by (simp add: new_cart_item_def variant_price_def)

lemma perform_line_total:
  assumes "list_all line_total (items s)" and "price_stable s op"
  shows "list_all line_total (items (perform s op))"
proof (cases op)
  case (AddItem c)
  let ?p = "new_cart_item c"
  let ?k = "findIndex (same_line ?p) (items s)"
  show ?thesis
  proof (cases "0 \<le> ?k")
    case True
    have "line_total (if int i = ?k then merge_item ?p x else x)"
      if "(i, x) \<in> set (enumerate 0 (items s))" for i x
    proof (cases "int i = ?k")
      case False
      with that assms(1) show ?thesis
        by (auto simp: list_all_iff in_set_enumerate_eq)
    next
      case eq: True
      from that have x: "x = items s ! i" "i < length (items s)"
        by (simp_all add: in_set_enumerate_eq)
      from eq True have "i = nat ?k" by simp
      with findIndex_sat [OF True] x have "same_line ?p x" by simp
      moreover have "x \<in> set (items s)" using x by simp
      ultimately have "variant_price x = variant_price ?p"
        using assms(2) AddItem by (simp add: list_all_iff variant_price_new)
      with eq show ?thesis by (simp add: line_total_merge)
    qed
    with True AddItem show ?thesis
      by (auto simp: addItem_def Let_def list_all_iff)
  next
    case False
    with AddItem assms(1) show ?thesis
      by (simp add: addItem_def Let_def line_total_new)
  qed
next
  case (UpdateQuantity i q)
  with assms(1) show ?thesis
    by (auto simp: updateQuantity_def list_all_iff line_total_set_quantity)
qed (use assms(1) in \<open>auto simp: op_defs list_all_iff\<close>)

lemma summary_effect_items: "items (summary_effect s) = items s"
  by (simp add: summary_effect_def)

text \<open>
  What the store does keep: along every run of operations in which each \<^verbatim>\<open>addItem\<close> for a
  line already in the cart carries the stored variant price, every line has
  \<open>total = quantity * (variant?.price || price)\<close>.
\<close>

lemma run_line_total:
  "list_all line_total (items s) \<Longrightarrow> stable_run s ops \<Longrightarrow> list_all line_total (items (run s ops))"
proof (induction ops arbitrary: s)
  case Nil
  then show ?case by simp
next
  case (Cons op ops)
  from Cons.prems have "list_all line_total (items (summary_effect (perform s op)))"
    by (simp add: summary_effect_items perform_line_total)
  with Cons.prems Cons.IH show ?case by simp
qed

lemma fadd_1_1: "fadd 1 1 = 2"
  by code_simp

lemma fmul_2_12: "fmul 2 12 = 24"
  by code_simp

lemma fmul_2_10: "fmul 2 10 = 20"
  by code_simp

lemma fmul_1_0: "fmul 1 0 = 0"
  by code_simp

lemma two_adds_items:
  "items (addItem (addItem readyState (variant_item 10 1)) (variant_item 12 1)) =
     [merge_item (new_cart_item (variant_item 12 1)) (new_cart_item (variant_item 10 1))]"
proof -
  have "items (addItem readyState (variant_item 10 1)) = [new_cart_item (variant_item 10 1)]"
    by (simp add: addItem_empty readyState_def initialState_def)
  then show ?thesis
    by (rule addItem_single_same)
       (simp_all add: new_cart_item_fields variant_item_def variant_id_def)
qed

text \<open>
  Claim C4 against the code. Variant \<^verbatim>\<open>v1\<close> of product \<^verbatim>\<open>p1\<close> is added once at variant price
  10 and once more after its price changed to 12. The stored line keeps the variant with
  price 10 and has quantity 2, but \<^verbatim>\<open>ADD_ITEM\<close> computes its total from the payload's variant
  price: 24 instead of 2 * 10 = 20. \<^verbatim>\<open>UPDATE_QUANTITY\<close> on that state, with the same quantity
  2, computes the total from the stored variant and gives 20. Besides, a variant whose price
  is 0 is charged at the item's price, since \<^verbatim>\<open>||\<close> treats 0 as absent.
\<close>

theorem C4_merge_total_diverges:
  "map quantity (items (addItem (addItem readyState (variant_item 10 1)) (variant_item 12 1)))
     = [2]
   \<and> map spec_unitPrice
       (items (addItem (addItem readyState (variant_item 10 1)) (variant_item 12 1))) = [10]
   \<and> map total (items (addItem (addItem readyState (variant_item 10 1)) (variant_item 12 1)))
     = [24]
   \<and> \<not> list_all spec_line_total
         (items (addItem (addItem readyState (variant_item 10 1)) (variant_item 12 1)))
   \<and> map total (items (updateQuantity
         (addItem (addItem readyState (variant_item 10 1)) (variant_item 12 1)) ''p1-v1'' 2))
     = [20]
   \<and> map spec_unitPrice (items (addItem readyState (variant_item 0 1))) = [0]
   \<and> map total (items (addItem readyState (variant_item 0 1))) = [10]
   \<and> \<not> list_all spec_line_total (items (addItem readyState (variant_item 0 1)))"
proof -
  let ?s2 = "addItem (addItem readyState (variant_item 10 1)) (variant_item 12 1)"
  let ?it = "merge_item (new_cart_item (variant_item 12 1)) (new_cart_item (variant_item 10 1))"
  have q: "quantity ?it = 2"
    by (simp add: merge_item_fields new_cart_item_fields variant_item_def fadd_1_1)
  have u: "spec_unitPrice ?it = 10"
    by (simp add: spec_unitPrice_def merge_item_fields new_cart_item_fields variant_item_def)
  have t: "total ?it = 24"
    by (simp add: merge_item_fields new_cart_item_fields variant_item_def variant_price_def
        fadd_1_1 fmul_2_12)
  have i: "item_id ?it = ''p1-v1''"
    by (simp add: merge_item_fields new_cart_item_def variant_item_def variant_id_def)
  have n: "\<not> spec_line_total ?it"
    by (simp add: spec_line_total_def q u t fmul_2_10)
  have r: "total (set_quantity 2 ?it) = 20"
    by (simp add: set_quantity_def variant_price_def merge_item_fields new_cart_item_fields
        variant_item_def fmul_2_10)
  have z: "items (addItem readyState (variant_item 0 1)) = [new_cart_item (variant_item 0 1)]"
    by (simp add: addItem_empty readyState_def initialState_def)
  have zu: "spec_unitPrice (new_cart_item (variant_item 0 1)) = 0"
    by (simp add: spec_unitPrice_def new_cart_item_fields variant_item_def)
  have zt: "total (new_cart_item (variant_item 0 1)) = 10"
    by (simp add: new_cart_item_fields variant_item_def variant_price_def fmul_1_10)
  have zn: "\<not> spec_line_total (new_cart_item (variant_item 0 1))"
    by (simp add: spec_line_total_def zu zt)
       (simp add: new_cart_item_fields variant_item_def fmul_1_0)
  show ?thesis
    by (simp add: two_adds_items updateQuantity_def q u t i n r z zu zt zn)
qed

end
